theory Spec2Isabelle
  imports Main "HOL-Library.Word"
begin

section \<open>Log metadata (logwriter.hpp, logwriter.cpp)\<close>

text \<open>
  Modelled from the spec: logtag.hpp, which declares \<^verbatim>\<open>LogTag\<close>, is not among the source
  files. The spec describes a tag object by one operation, \<^verbatim>\<open>Render(encapsulated bool) -> string\<close>;
  the source reads the member \<^verbatim>\<open>encaps\<close> and calls \<^verbatim>\<open>str(bool)\<close>. A tag is therefore its
  \<^verbatim>\<open>encaps\<close> flag and the two strings \<^verbatim>\<open>str(true)\<close> and \<^verbatim>\<open>str(false)\<close> return.
\<close>

record LogTag =
  encaps :: bool
  str_encapsulated :: string
  str_plain :: string

definition LogTag_str :: "LogTag \<Rightarrow> bool \<Rightarrow> string" where
  "LogTag_str t override = (if override then str_encapsulated t else str_plain t)"

text \<open>
  Modelled from the spec: the default constructor \<^verbatim>\<open>LogTag()\<close> is declared in logtag.hpp.
  A string-typed metadata value is bound to such a tag and never renders it.
\<close>

definition LogTag_default :: LogTag where
  "LogTag_default = \<lparr>encaps = True, str_encapsulated = [], str_plain = []\<rparr>"

datatype Type = LOGMETA_STRING | LOGMETA_LOGTAG

record LogMetaDataValue =
  type :: Type
  label :: string
  str_value :: string
  logtag :: LogTag
  skip :: bool

text \<open>The two constructors of \<^verbatim>\<open>LogMetaDataValue\<close>.\<close>

definition LogMetaDataValue_string :: "string \<Rightarrow> string \<Rightarrow> bool \<Rightarrow> LogMetaDataValue" where
  "LogMetaDataValue_string l v s =
     \<lparr>type = LOGMETA_STRING, label = l, str_value = v, logtag = LogTag_default, skip = s\<rparr>"

definition LogMetaDataValue_logtag :: "string \<Rightarrow> LogTag \<Rightarrow> bool \<Rightarrow> LogMetaDataValue" where
  "LogMetaDataValue_logtag l v s =
     \<lparr>type = LOGMETA_LOGTAG, label = l, str_value = [], logtag = v, skip = s\<rparr>"

text \<open>\<^verbatim>\<open>LogMetaDataValue::GetValue(logtag_encaps)\<close>; the declaration defaults the flag to true.\<close>

definition GetValue :: "LogMetaDataValue \<Rightarrow> bool \<Rightarrow> string" where
  "GetValue mdv logtag_encaps =
     (case type mdv of
        LOGMETA_STRING \<Rightarrow> str_value mdv
      | LOGMETA_LOGTAG \<Rightarrow> LogTag_str (logtag mdv) logtag_encaps)"

text \<open>\<^verbatim>\<open>operator<<\<close> on one value: the text it appends to the stream.\<close>

definition put_LogMetaDataValue :: "LogMetaDataValue \<Rightarrow> string" where
  "put_LogMetaDataValue mdv =
     (if skip mdv then []
      else label mdv @ ''='' @ GetValue mdv (encaps (logtag mdv)))"

text \<open>
  \<^verbatim>\<open>LogMetaData\<close> holds a vector of values in insertion order; \<^verbatim>\<open>AddMeta\<close> pushes at
  the back.
\<close>

type_synonym LogMetaData = "LogMetaDataValue list"

definition LogMetaData_AddMeta_string ::
  "string \<Rightarrow> string \<Rightarrow> bool \<Rightarrow> LogMetaData \<Rightarrow> LogMetaData" where
  "LogMetaData_AddMeta_string l v s md = md @ [LogMetaDataValue_string l v s]"

definition LogMetaData_AddMeta_logtag ::
  "string \<Rightarrow> LogTag \<Rightarrow> bool \<Rightarrow> LogMetaData \<Rightarrow> LogMetaData" where
  "LogMetaData_AddMeta_logtag l v s md = md @ [LogMetaDataValue_logtag l v s]"

text \<open>
  \<^verbatim>\<open>LogMetaData::GetMetaValue(l, encaps_logtag, postfix)\<close>: \<^verbatim>\<open>std::find_if\<close> on the label,
  then the value and the postfix.
\<close>

definition GetMetaValue :: "LogMetaData \<Rightarrow> string \<Rightarrow> bool \<Rightarrow> string \<Rightarrow> string" where
  "GetMetaValue md l encaps_logtag postfix =
     (case find (\<lambda>e. l = label e) md of
        None \<Rightarrow> []
      | Some e \<Rightarrow> GetValue e encaps_logtag @ postfix)"

text \<open>
  The call \<^verbatim>\<open>GetMetaValue(l)\<close> with the defaults the declaration gives:
  \<^verbatim>\<open>encaps_logtag = true\<close> and \<^verbatim>\<open>postfix = " "\<close>.
\<close>

definition GetMetaValue_default :: "LogMetaData \<Rightarrow> string \<Rightarrow> string" where
  "GetMetaValue_default md l = GetMetaValue md l True '' ''"

text \<open>
  \<^verbatim>\<open>std::toupper\<close> on an \<^verbatim>\<open>unsigned char\<close>, in the "C" locale: the 26 lower-case letters
  are mapped, every other character is returned as it is.
\<close>

definition toupper :: "char \<Rightarrow> char" where
  "toupper c =
     (case map_of (zip ''abcdefghijklmnopqrstuvwxyz'' ''ABCDEFGHIJKLMNOPQRSTUVWXYZ'') c of
        Some u \<Rightarrow> u
      | None \<Rightarrow> c)"

text \<open>The body of the loop of \<^verbatim>\<open>GetMetaDataRecords\<close>: the record pushed for one entry.\<close>

definition metadata_record :: "bool \<Rightarrow> bool \<Rightarrow> LogMetaDataValue \<Rightarrow> string" where
  "metadata_record upcase_label logtag_encaps mdc =
     (let lbl = (if upcase_label then map toupper (label mdc) else label mdc)
      in if type mdc = LOGMETA_LOGTAG
         then lbl @ ''='' @ GetValue mdc logtag_encaps
         else lbl @ ''='' @ GetValue mdc True)"

fun GetMetaDataRecords_loop :: "bool \<Rightarrow> bool \<Rightarrow> string list \<Rightarrow> LogMetaData \<Rightarrow> string list" where
  "GetMetaDataRecords_loop upcase_label logtag_encaps ret [] = ret"
| "GetMetaDataRecords_loop upcase_label logtag_encaps ret (mdc # rest) =
     GetMetaDataRecords_loop upcase_label logtag_encaps
       (ret @ [metadata_record upcase_label logtag_encaps mdc]) rest"

definition GetMetaDataRecords :: "LogMetaData \<Rightarrow> bool \<Rightarrow> bool \<Rightarrow> string list" where
  "GetMetaDataRecords md upcase_label logtag_encaps =
     GetMetaDataRecords_loop upcase_label logtag_encaps [] md"

text \<open>
  \<^verbatim>\<open>operator<<\<close> on the whole set: skipped entries are passed over, the others are joined
  with a comma and a space.
\<close>

fun put_LogMetaData_loop :: "bool \<Rightarrow> LogMetaData \<Rightarrow> string" where
  "put_LogMetaData_loop first [] = []"
| "put_LogMetaData_loop first (mdv # rest) =
     (if skip mdv then put_LogMetaData_loop first rest
      else (if \<not> first then '', '' else []) @ put_LogMetaDataValue mdv
           @ put_LogMetaData_loop False rest)"

definition put_LogMetaData :: "LogMetaData \<Rightarrow> string" where
  "put_LogMetaData mdc = put_LogMetaData_loop True mdc"

text \<open>
  What the specification says \<^verbatim>\<open>RenderAll\<close> returns: the records of the entries that are
  not marked \<^verbatim>\<open>skip\<close>, in insertion order. This definition follows the specification's
  words; it is compared with \<^const>\<open>GetMetaDataRecords\<close>, which follows the source.
\<close>

definition RenderAll_spec :: "LogMetaData \<Rightarrow> bool \<Rightarrow> bool \<Rightarrow> string list" where
  "RenderAll_spec md upcase_label logtag_encaps =
     map (metadata_record upcase_label logtag_encaps) (filter (\<lambda>e. \<not> skip e) md)"

section \<open>Log events\<close>

text \<open>
  Modelled from the spec: logevent.hpp, which declares \<^verbatim>\<open>LogGroup\<close>, \<^verbatim>\<open>LogCategory\<close> and
  \<^verbatim>\<open>LogEvent\<close>, is not among the source files. The spec calls the group a subsystem tag
  independent of severity; the source names only \<^verbatim>\<open>LogGroup::UNDEFINED\<close>, so the other
  groups are numbered. The spec gives the severity categories as the total order
  DEBUG < INFO < WARN < ERROR < CRITICAL < FATAL; the source compares two categories
  with \<^verbatim>\<open><\<close> on the enumeration.
\<close>

datatype LogGroup = UNDEFINED | Subsystem nat

datatype LogCategory = DEBUG | INFO | WARN | ERROR | CRITICAL | FATAL

fun LogCategory_rank :: "LogCategory \<Rightarrow> nat" where
  "LogCategory_rank DEBUG = 0"
| "LogCategory_rank INFO = 1"
| "LogCategory_rank WARN = 2"
| "LogCategory_rank ERROR = 3"
| "LogCategory_rank CRITICAL = 4"
| "LogCategory_rank FATAL = 5"

definition LogCategory_less :: "LogCategory \<Rightarrow> LogCategory \<Rightarrow> bool" where
  "LogCategory_less a b = (LogCategory_rank a < LogCategory_rank b)"

text \<open>
  Modelled from the spec: a \<^verbatim>\<open>LogEvent\<close> carries group, severity category, message and an
  optional session token; the constructor \<^verbatim>\<open>LogEvent(grp, ctg, msg)\<close> leaves the token empty,
  and \<^verbatim>\<open>Events::Log(logev, session_token)\<close> copies an event and sets its token.
\<close>

record LogEvent =
  group :: LogGroup
  category :: LogCategory
  session_token :: string
  message :: string

definition LogEvent_new :: "LogGroup \<Rightarrow> LogCategory \<Rightarrow> string \<Rightarrow> LogEvent" where
  "LogEvent_new grp ctg msg = \<lparr>group = grp, category = ctg, session_token = [], message = msg\<rparr>"

definition LogEvent_with_token :: "LogEvent \<Rightarrow> string \<Rightarrow> LogEvent" where
  "LogEvent_with_token logev token = logev\<lparr>session_token := token\<rparr>"

section \<open>What the writers call outside the source files\<close>

text \<open>
  The writers call functions that are declared outside the source files at hand; they are
  parameters of the model. \<^verbatim>\<open>GetTimestamp()\<close> reads the clock: \<open>GetTimestamp env k\<close> is what the
  \<open>k\<close>-th reading during one call returns. \<^verbatim>\<open>LogPrefix\<close>, \<^verbatim>\<open>logcatg2syslog\<close>,
  \<^verbatim>\<open>GetLogGroupStr\<close> and \<^verbatim>\<open>GetLogCategoryStr\<close> come with the log event;
  \<^verbatim>\<open>sd_journal_sendv\<close> is the journal's submission call, which returns 0 on success,
  and \<open>strerror_errno\<close> is the text of \<^verbatim>\<open>strerror(errno)\<close> after it.
\<close>

record Env =
  GetTimestamp :: "nat \<Rightarrow> string"
  LogPrefix :: "LogGroup \<Rightarrow> LogCategory \<Rightarrow> string"
  logcatg2syslog :: "LogCategory \<Rightarrow> int"
  GetLogGroupStr :: "LogGroup \<Rightarrow> string"
  GetLogCategoryStr :: "LogCategory \<Rightarrow> string"
  sd_journal_sendv :: "string list \<Rightarrow> int"
  strerror_errno :: string

definition endl :: string where
  "endl = [CHR 0x0A]"

definition LOG_INFO :: int where
  "LOG_INFO = 6"

section \<open>The base class LogWriter (logwriter.hpp)\<close>

record LogWriter =
  timestamp :: bool
  log_meta :: bool
  metadata :: LogMetaData
  prepend_prefix :: bool
  prepend_label :: string
  prepend_meta :: bool

text \<open>The member initialisers of the class.\<close>

definition LogWriter_init :: LogWriter where
  "LogWriter_init =
     \<lparr>timestamp = True, log_meta = True, metadata = [], prepend_prefix = True,
      prepend_label = [], prepend_meta = False\<rparr>"

definition EnableTimestamp :: "bool \<Rightarrow> 'a LogWriter_scheme \<Rightarrow> 'a LogWriter_scheme" where
  "EnableTimestamp tstamp w = w\<lparr>timestamp := tstamp\<rparr>"

definition EnableLogMeta :: "bool \<Rightarrow> 'a LogWriter_scheme \<Rightarrow> 'a LogWriter_scheme" where
  "EnableLogMeta meta w = w\<lparr>log_meta := meta\<rparr>"

definition EnableMessagePrepend :: "bool \<Rightarrow> 'a LogWriter_scheme \<Rightarrow> 'a LogWriter_scheme" where
  "EnableMessagePrepend mp w = w\<lparr>prepend_prefix := mp\<rparr>"

text \<open>The two overloads of \<^verbatim>\<open>AddMeta\<close>; the tag overload does not read its \<^verbatim>\<open>encaps\<close> argument.\<close>

definition AddMeta_string ::
  "string \<Rightarrow> string \<Rightarrow> bool \<Rightarrow> 'a LogWriter_scheme \<Rightarrow> 'a LogWriter_scheme" where
  "AddMeta_string lbl data skp w =
     (if log_meta w
      then w\<lparr>metadata := LogMetaData_AddMeta_string lbl data skp (metadata w)\<rparr>
      else w)"

definition AddMeta_logtag ::
  "string \<Rightarrow> LogTag \<Rightarrow> bool \<Rightarrow> bool \<Rightarrow> 'a LogWriter_scheme \<Rightarrow> 'a LogWriter_scheme" where
  "AddMeta_logtag lbl ltg skp encaps_arg w =
     (if log_meta w
      then w\<lparr>metadata := LogMetaData_AddMeta_logtag lbl ltg skp (metadata w)\<rparr>
      else w)"

definition AddMetaCopy :: "LogMetaData \<Rightarrow> 'a LogWriter_scheme \<Rightarrow> 'a LogWriter_scheme" where
  "AddMetaCopy mdc w = w\<lparr>metadata := mdc\<rparr>"

definition PrependMeta :: "string \<Rightarrow> bool \<Rightarrow> 'a LogWriter_scheme \<Rightarrow> 'a LogWriter_scheme" where
  "PrependMeta lbl prep_meta w = w\<lparr>prepend_label := lbl, prepend_meta := prep_meta\<rparr>"

text \<open>
  The three \<^verbatim>\<open>Write\<close> overloads the base class implements call another virtual overload;
  the overload the object's class provides is the first argument.
\<close>

definition LogWriter_Write_group ::
  "(string \<Rightarrow> string \<Rightarrow> string \<Rightarrow> 'w \<Rightarrow> 'w) \<Rightarrow> Env \<Rightarrow>
   LogGroup \<Rightarrow> LogCategory \<Rightarrow> string \<Rightarrow> string \<Rightarrow> string \<Rightarrow> 'w \<Rightarrow> 'w" where
  "LogWriter_Write_group Write_data env grp ctg data colour_init colour_reset =
     Write_data (LogPrefix env grp ctg @ data) colour_init colour_reset"

definition LogWriter_Write_plain ::
  "(LogGroup \<Rightarrow> LogCategory \<Rightarrow> string \<Rightarrow> string \<Rightarrow> string \<Rightarrow> 'w \<Rightarrow> 'w) \<Rightarrow>
   LogGroup \<Rightarrow> LogCategory \<Rightarrow> string \<Rightarrow> 'w \<Rightarrow> 'w" where
  "LogWriter_Write_plain Write_group grp ctg data = Write_group grp ctg data [] []"

definition LogWriter_Write_event ::
  "(LogGroup \<Rightarrow> LogCategory \<Rightarrow> string \<Rightarrow> 'w \<Rightarrow> 'w) \<Rightarrow> LogEvent \<Rightarrow> 'w \<Rightarrow> 'w" where
  "LogWriter_Write_event Write_plain logev =
     Write_plain (group logev) (category logev) (message logev)"

section \<open>StreamLogWriter and ColourStreamWriter (logwriter.cpp)\<close>

text \<open>The destination stream is the text written to it so far.\<close>

record StreamLogWriter = LogWriter +
  dest :: string

definition StreamLogWriter_init :: StreamLogWriter where
  "StreamLogWriter_init =
     \<lparr>timestamp = True, log_meta = True, metadata = [], prepend_prefix = True,
      prepend_label = [], prepend_meta = False, dest = []\<rparr>"

text \<open>
  \<^verbatim>\<open>StreamLogWriter::Write(data, colour_init, colour_reset)\<close>: the metadata line when
  there is one, the data line, then the two clears.
\<close>

definition StreamLogWriter_Write ::
  "Env \<Rightarrow> string \<Rightarrow> string \<Rightarrow> string \<Rightarrow> 'a StreamLogWriter_scheme \<Rightarrow> 'a StreamLogWriter_scheme" where
  "StreamLogWriter_Write env data colour_init colour_reset w =
     (let meta_line = (log_meta w \<and> metadata w \<noteq> []);
          w1 = (if meta_line
                then w\<lparr>dest := dest w
                         @ (if timestamp w then GetTimestamp env 0 else []) @ '' ''
                         @ colour_init
                         @ (if prepend_meta w
                            then GetMetaValue_default (metadata w) (prepend_label w) else [])
                         @ put_LogMetaData (metadata w) @ colour_reset @ endl,
                       prepend_meta := False\<rparr>
                else w);
          w2 = w1\<lparr>dest := dest w1
                     @ (if timestamp w1 then GetTimestamp env (if meta_line then 1 else 0) else [])
                     @ '' '' @ colour_init
                     @ (if prepend_label w1 \<noteq> []
                        then GetMetaValue_default (metadata w1) (prepend_label w1) else [])
                     @ data @ colour_reset @ endl\<rparr>
      in w2\<lparr>prepend_label := [], metadata := []\<rparr>)"

text \<open>The overloads a stream writer inherits from the base class.\<close>

definition StreamLogWriter_Write_group ::
  "Env \<Rightarrow> LogGroup \<Rightarrow> LogCategory \<Rightarrow> string \<Rightarrow> string \<Rightarrow> string \<Rightarrow>
   'a StreamLogWriter_scheme \<Rightarrow> 'a StreamLogWriter_scheme" where
  "StreamLogWriter_Write_group env = LogWriter_Write_group (StreamLogWriter_Write env) env"

definition StreamLogWriter_Write_plain ::
  "Env \<Rightarrow> LogGroup \<Rightarrow> LogCategory \<Rightarrow> string \<Rightarrow>
   'a StreamLogWriter_scheme \<Rightarrow> 'a StreamLogWriter_scheme" where
  "StreamLogWriter_Write_plain env = LogWriter_Write_plain (StreamLogWriter_Write_group env)"

definition StreamLogWriter_Write_event ::
  "Env \<Rightarrow> LogEvent \<Rightarrow> 'a StreamLogWriter_scheme \<Rightarrow> 'a StreamLogWriter_scheme" where
  "StreamLogWriter_Write_event env = LogWriter_Write_event (StreamLogWriter_Write_plain env)"

text \<open>
  Modelled from the spec: the colour engine is declared outside the source files. The spec
  names two colour policies, by category and by group, "or no colour at all"; the source
  calls \<^verbatim>\<open>GetColourMode\<close>, \<^verbatim>\<open>ColourByCategory\<close>, \<^verbatim>\<open>ColourByGroup\<close> and \<^verbatim>\<open>Reset\<close> on the engine
  and has a \<^verbatim>\<open>default\<close> branch for a mode that is neither of the two.
\<close>

datatype ColourMode = BY_CATEGORY | BY_GROUP | NO_COLOUR

record ColourEngine =
  GetColourMode :: ColourMode
  ColourByCategory :: "LogCategory \<Rightarrow> string"
  ColourByGroup :: "LogGroup \<Rightarrow> string"
  Reset :: string

record ColourStreamWriter = StreamLogWriter +
  colours :: ColourEngine

text \<open>
  \<^verbatim>\<open>ColourStreamWriter::Write(grp, ctg, data)\<close>. The qualified calls \<^verbatim>\<open>LogWriter::Write\<close> run
  the base class's overloads, which reach \<^verbatim>\<open>StreamLogWriter::Write\<close>.
\<close>

definition ColourStreamWriter_Write ::
  "Env \<Rightarrow> LogGroup \<Rightarrow> LogCategory \<Rightarrow> string \<Rightarrow>
   'a ColourStreamWriter_scheme \<Rightarrow> 'a ColourStreamWriter_scheme" where
  "ColourStreamWriter_Write env grp ctg data w =
     (case GetColourMode (colours w) of
        BY_CATEGORY \<Rightarrow>
          LogWriter_Write_group (StreamLogWriter_Write env) env grp ctg data
            (ColourByCategory (colours w) ctg) (Reset (colours w)) w
      | BY_GROUP \<Rightarrow>
          (let grpcol = ColourByGroup (colours w) grp;
               ctgcol = (if LogCategory_less INFO ctg
                         then ColourByCategory (colours w) ctg else grpcol)
           in LogWriter_Write_group (StreamLogWriter_Write env) env grp ctg (grpcol @ data)
                ctgcol (Reset (colours w)) w)
      | NO_COLOUR \<Rightarrow>
          LogWriter_Write_plain (LogWriter_Write_group (StreamLogWriter_Write env) env)
            grp ctg data w)"

section \<open>SyslogWriter (logwriter.cpp)\<close>

text \<open>The calls of \<^verbatim>\<open>syslog\<close> made so far: priority and formatted text.\<close>

record SyslogWriter = LogWriter +
  syslog_calls :: "(int \<times> string) list"

definition SyslogWriter_init :: SyslogWriter where
  "SyslogWriter_init =
     \<lparr>timestamp = True, log_meta = True, metadata = [], prepend_prefix = True,
      prepend_label = [], prepend_meta = False, syslog_calls = []\<rparr>"

definition SyslogWriter_Write ::
  "Env \<Rightarrow> string \<Rightarrow> string \<Rightarrow> string \<Rightarrow> 'a SyslogWriter_scheme \<Rightarrow> 'a SyslogWriter_scheme" where
  "SyslogWriter_Write env data colour_init colour_reset w =
     (let p = (if prepend_meta w
               then GetMetaValue_default (metadata w) (prepend_label w) else []);
          w1 = (if log_meta w \<and> metadata w \<noteq> []
                then w\<lparr>syslog_calls := syslog_calls w
                         @ [(LOG_INFO, p @ put_LogMetaData (metadata w))],
                       prepend_meta := False\<rparr>
                else w);
          w2 = w1\<lparr>syslog_calls := syslog_calls w1 @ [(LOG_INFO, p @ data)]\<rparr>
      in w2\<lparr>prepend_label := [], metadata := []\<rparr>)"

definition SyslogWriter_Write_group ::
  "Env \<Rightarrow> LogGroup \<Rightarrow> LogCategory \<Rightarrow> string \<Rightarrow> string \<Rightarrow> string \<Rightarrow>
   'a SyslogWriter_scheme \<Rightarrow> 'a SyslogWriter_scheme" where
  "SyslogWriter_Write_group env grp ctg data colour_init colour_reset w =
     (let p = (if prepend_meta w
               then GetMetaValue_default (metadata w) (prepend_label w) else []);
          w1 = (if log_meta w \<and> metadata w \<noteq> []
                then w\<lparr>syslog_calls := syslog_calls w
                         @ [(logcatg2syslog env ctg, p @ put_LogMetaData (metadata w))],
                       prepend_meta := False\<rparr>
                else w);
          w2 = w1\<lparr>syslog_calls := syslog_calls w1
                     @ [(logcatg2syslog env ctg, p @ LogPrefix env grp ctg @ data)]\<rparr>
      in w2\<lparr>prepend_label := [], metadata := []\<rparr>)"

definition SyslogWriter_Write_plain ::
  "Env \<Rightarrow> LogGroup \<Rightarrow> LogCategory \<Rightarrow> string \<Rightarrow>
   'a SyslogWriter_scheme \<Rightarrow> 'a SyslogWriter_scheme" where
  "SyslogWriter_Write_plain env = LogWriter_Write_plain (SyslogWriter_Write_group env)"

definition SyslogWriter_Write_event ::
  "Env \<Rightarrow> LogEvent \<Rightarrow> 'a SyslogWriter_scheme \<Rightarrow> 'a SyslogWriter_scheme" where
  "SyslogWriter_Write_event env = LogWriter_Write_event (SyslogWriter_Write_plain env)"

section \<open>JournaldWriter (logwriter.cpp)\<close>

text \<open>
  The records handed to \<^verbatim>\<open>sd_journal_sendv\<close> so far, each a list of fields, and the text
  written to \<^verbatim>\<open>std::cout\<close>.
\<close>

record JournaldWriter = LogWriter +
  sendv_calls :: "string list list"
  cout :: string

definition JournaldWriter_init :: JournaldWriter where
  "JournaldWriter_init =
     \<lparr>timestamp = True, log_meta = True, metadata = [], prepend_prefix = True,
      prepend_label = [], prepend_meta = False, sendv_calls = [], cout = []\<rparr>"

text \<open>\<^verbatim>\<open>JournaldWriter::Write(const LogEvent&)\<close>: the fields in the order the array is filled.\<close>

definition JournaldWriter_Write_event ::
  "Env \<Rightarrow> LogEvent \<Rightarrow> 'a JournaldWriter_scheme \<Rightarrow> 'a JournaldWriter_scheme" where
  "JournaldWriter_Write_event env event w =
     (let l0 = map (\<lambda>r. ''O3_'' @ r) (GetMetaDataRecords (metadata w) True False);
          l1 = (if session_token event \<noteq> []
                then l0 @ [''O3_SESSION_TOKEN='' @ session_token event] else l0);
          l2 = l1 @ [''O3_LOG_GROUP='' @ GetLogGroupStr env (group event)];
          l3 = l2 @ [''O3_LOG_CATEGORY='' @ GetLogCategoryStr env (category event)];
          m = ''MESSAGE=''
              @ (if prepend_prefix w \<and> prepend_meta w
                 then GetMetaValue (metadata w) (prepend_label w) True '' '' else [])
              @ message event;
          l4 = l3 @ [m];
          r = sd_journal_sendv env l4;
          w1 = w\<lparr>sendv_calls := sendv_calls w @ [l4]\<rparr>;
          w2 = (if 0 \<noteq> r
                then w1\<lparr>cout := cout w1 @ ''ERROR: '' @ strerror_errno env @ endl\<rparr>
                else w1)
      in w2\<lparr>prepend_label := [], metadata := []\<rparr>)"

definition JournaldWriter_Write ::
  "Env \<Rightarrow> string \<Rightarrow> string \<Rightarrow> string \<Rightarrow> 'a JournaldWriter_scheme \<Rightarrow> 'a JournaldWriter_scheme" where
  "JournaldWriter_Write env data colour_init colour_reset =
     JournaldWriter_Write_event env (LogEvent_new UNDEFINED INFO data)"

definition JournaldWriter_Write_group ::
  "Env \<Rightarrow> LogGroup \<Rightarrow> LogCategory \<Rightarrow> string \<Rightarrow> string \<Rightarrow> string \<Rightarrow>
   'a JournaldWriter_scheme \<Rightarrow> 'a JournaldWriter_scheme" where
  "JournaldWriter_Write_group env grp ctg data colour_init colour_reset =
     JournaldWriter_Write_event env (LogEvent_new grp ctg data)"

definition JournaldWriter_Write_plain ::
  "Env \<Rightarrow> LogGroup \<Rightarrow> LogCategory \<Rightarrow> string \<Rightarrow>
   'a JournaldWriter_scheme \<Rightarrow> 'a JournaldWriter_scheme" where
  "JournaldWriter_Write_plain env = LogWriter_Write_plain (JournaldWriter_Write_group env)"

section \<open>Backend signals (backend-signals.hpp)\<close>

text \<open>
  \<^verbatim>\<open>EmitSignal\<close> belongs to the D-Bus library: it returns a boolean or throws. The handler in
  \<^verbatim>\<open>Send\<close> catches \<^verbatim>\<open>DBus::Signals::Exception\<close> only; an exception of another type leaves
  the function.
\<close>

datatype Exception = DBus_Signals_Exception string | Other_Exception string

datatype 'a outcome = Returns 'a | Throws Exception

text \<open>\<^verbatim>\<open>pid_t\<close> is a signed 32-bit integer: 32 bits, read with \<^const>\<open>sint\<close>.\<close>

type_synonym pid_t = "32 word"

type_synonym payload = "string \<times> string \<times> pid_t"

text \<open>
  \<^verbatim>\<open>Backend::Signals::RegistrationRequest::Send\<close>. The second argument and the second
  component of the result are the text on \<^verbatim>\<open>std::cerr\<close>; \<open>Inl\<close> is an exception that leaves
  the function.
\<close>

definition RegistrationRequest_Send ::
  "(payload \<Rightarrow> bool outcome) \<Rightarrow> string \<Rightarrow> string \<Rightarrow> string \<Rightarrow> pid_t \<Rightarrow>
   (Exception + bool) \<times> string" where
  "RegistrationRequest_Send EmitSignal cerr busname token pid =
     (case EmitSignal (busname, token, pid) of
        Returns b \<Rightarrow> (Inr b, cerr)
      | Throws (DBus_Signals_Exception what) \<Rightarrow>
          (Inr False, cerr @ ''RegistrationRequest::Send() EXCEPTION:'' @ what @ endl)
      | Throws (Other_Exception what) \<Rightarrow> (Inl (Other_Exception what), cerr))"

text \<open>
  \<^verbatim>\<open>BackendSignals::RegistrationRequest\<close> is declared \<^verbatim>\<open>void\<close>: it calls \<^verbatim>\<open>Send\<close> and drops
  the boolean.
\<close>

definition BackendSignals_RegistrationRequest ::
  "(payload \<Rightarrow> bool outcome) \<Rightarrow> string \<Rightarrow> string \<Rightarrow> string \<Rightarrow> pid_t \<Rightarrow>
   (Exception + unit) \<times> string" where
  "BackendSignals_RegistrationRequest EmitSignal cerr busname token pid =
     (case RegistrationRequest_Send EmitSignal cerr busname token pid of
        (Inr b, cerr') \<Rightarrow> (Inr (), cerr')
      | (Inl ex, cerr') \<Rightarrow> (Inl ex, cerr'))"

text \<open>
  The part of a \<^verbatim>\<open>BackendSignals\<close> object that \<^verbatim>\<open>Log\<close> and \<^verbatim>\<open>LogFATAL\<close> touch.
  Modelled from the spec: \<^verbatim>\<open>LogSender\<close> (log/dbus-log.hpp) is not among the source files;
  its \<^verbatim>\<open>Log\<close> hands the event to the local writer and to the log subscribers, which is
  recorded here as the list of events handed over, and it provides \<^verbatim>\<open>log_group\<close>.

  \<^verbatim>\<open>delayed_shutdown\<close> is a \<^verbatim>\<open>std::unique_ptr<std::thread>\<close>: empty, or owning the thread
  object of one timer. Timer threads are numbered in the order they are started, and
  \<open>threads_started\<close> counts them. No code joins or detaches a timer thread, so a thread
  object that \<^verbatim>\<open>reset\<close> deletes is joinable and its destructor calls \<^verbatim>\<open>std::terminate\<close>,
  which ends the process; \<open>terminate_called\<close> records that.
\<close>

record BackendSignals =
  log_group :: LogGroup
  signal_session_token :: string
  log_sent :: "LogEvent list"
  threads_started :: nat
  delayed_shutdown :: "nat option"
  terminate_called :: bool

definition BackendSignals_init :: "LogGroup \<Rightarrow> string \<Rightarrow> BackendSignals" where
  "BackendSignals_init lgroup token =
     \<lparr>log_group = lgroup, signal_session_token = token, log_sent = [],
      threads_started = 0, delayed_shutdown = None, terminate_called = False\<rparr>"

definition BackendSignals_Log :: "LogEvent \<Rightarrow> BackendSignals \<Rightarrow> BackendSignals" where
  "BackendSignals_Log logev s =
     (let l = LogEvent_with_token logev (signal_session_token s)
      in s\<lparr>log_sent := log_sent s @ [l]\<rparr>)"

text \<open>
  \<^verbatim>\<open>BackendSignals::LogFATAL\<close>: the log event, then \<^verbatim>\<open>new std::thread\<close>, which starts the
  timer (three seconds of sleep, then \<^verbatim>\<open>SIGHUP\<close> to the process itself), then
  \<^verbatim>\<open>reset\<close>, which stores the new thread object and deletes the one held before. A
  process that \<^verbatim>\<open>std::terminate\<close> has ended makes no further call.
\<close>

definition LogFATAL :: "string \<Rightarrow> BackendSignals \<Rightarrow> BackendSignals" where
  "LogFATAL msg s =
     (if terminate_called s then s
      else
        (let s1 = BackendSignals_Log (LogEvent_new (log_group s) FATAL msg) s;
             t = threads_started s1;
             s2 = s1\<lparr>threads_started := Suc t\<rparr>;
             old = delayed_shutdown s2;
             s3 = s2\<lparr>delayed_shutdown := Some t\<rparr>
         in (case old of
               None \<Rightarrow> s3
             | Some joinable \<Rightarrow> s3\<lparr>terminate_called := True\<rparr>)))"

section \<open>Properties of the metadata model\<close>

lemma GetMetaDataRecords_loop_map:
  "GetMetaDataRecords_loop u e ret md = ret @ map (metadata_record u e) md"
  by (induction md arbitrary: ret) simp_all

lemma metadata_record_eq:
  "metadata_record u e mdc =
     (if u then map toupper (label mdc) else label mdc) @ ''='' @ GetValue mdc e"
  by (cases "type mdc") (simp_all add: metadata_record_def GetValue_def)

lemma find_no_match:
  "\<forall>x\<in>set pre. label x \<noteq> l \<Longrightarrow> find (\<lambda>e. l = label e) pre = None"
  by (induction pre) auto

lemma find_first_match:
  "\<forall>x\<in>set pre. label x \<noteq> l \<Longrightarrow> label e = l \<Longrightarrow>
   find (\<lambda>e. l = label e) (pre @ e # post) = Some e"
  by (induction pre) auto

text \<open>
  C8: a value constructed from a literal string \<open>v\<close> renders as \<open>v\<close> whether the
  encapsulation flag is true or false; the flag is read only for tag values.
\<close>

theorem GetValue_literal:
  "GetValue (LogMetaDataValue_string l v s) True = v \<and>
   GetValue (LogMetaDataValue_string l v s) False = v \<and>
   GetValue (LogMetaDataValue_logtag l t s) b = LogTag_str t b"
  by (simp add: GetValue_def LogMetaDataValue_string_def LogMetaDataValue_logtag_def)

text \<open>
  C3, as stated, fails: \<^verbatim>\<open>GetMetaDataRecords\<close> never reads the \<^verbatim>\<open>skip\<close> flag. With
  \<^verbatim>\<open>user=alice\<close> attached and \<^verbatim>\<open>ip=10.0.0.1\<close> attached with \<^verbatim>\<open>skip = true\<close>, the records
  returned hold both entries, where the claim has the skipped one left out.
\<close>

theorem GetMetaDataRecords_skip_counterexample:
  "GetMetaDataRecords
     [LogMetaDataValue_string ''user'' ''alice'' False,
      LogMetaDataValue_string ''ip'' ''10.0.0.1'' True] False True
   = [''user=alice'', ''ip=10.0.0.1''] \<and>
   GetMetaDataRecords
     [LogMetaDataValue_string ''user'' ''alice'' False,
      LogMetaDataValue_string ''ip'' ''10.0.0.1'' True] False True
   \<noteq> RenderAll_spec
     [LogMetaDataValue_string ''user'' ''alice'' False,
      LogMetaDataValue_string ''ip'' ''10.0.0.1'' True] False True"
  by (simp add: GetMetaDataRecords_def RenderAll_spec_def metadata_record_def GetValue_def
      LogMetaDataValue_string_def)

text \<open>
  C3, amended: \<^verbatim>\<open>GetMetaDataRecords\<close> returns one record for every entry, skipped or not,
  in insertion order; the record is the label (in upper case when asked for), an equals
  sign and the rendered value.
\<close>

theorem GetMetaDataRecords_all_entries:
  "GetMetaDataRecords md u e =
     map (\<lambda>mdc. (if u then map toupper (label mdc) else label mdc) @ ''='' @ GetValue mdc e) md"
  by (simp add: GetMetaDataRecords_def GetMetaDataRecords_loop_map metadata_record_eq)

text \<open>
  C4, as stated, fails: the postfix that \<^verbatim>\<open>GetMetaValue\<close> is declared with by default is
  one space, not the empty string. Looking up \<^verbatim>\<open>user\<close> where \<^verbatim>\<open>user=bob\<close> is attached
  returns \<^verbatim>\<open>bob\<close> and a space.
\<close>

theorem GetMetaValue_default_postfix_counterexample:
  "GetMetaValue_default [LogMetaDataValue_string ''user'' ''bob'' False] ''user'' = ''bob '' \<and>
   GetMetaValue_default [LogMetaDataValue_string ''user'' ''bob'' False] ''user''
     \<noteq> GetValue (LogMetaDataValue_string ''user'' ''bob'' False) True @ []"
  by (simp add: GetMetaValue_default_def GetMetaValue_def GetValue_def
      LogMetaDataValue_string_def)

text \<open>
  C4, amended: the lookup returns the rendered value of the first entry, in insertion
  order, whose label matches, followed by the postfix, which is one space by default; it
  returns the empty string when no entry's label matches.
\<close>

theorem GetMetaValue_first_match:
  assumes "\<forall>x\<in>set pre. label x \<noteq> l" and "label e = l"
  shows "GetMetaValue_default (pre @ e # post) l = GetValue e True @ '' '' \<and>
         GetMetaValue (pre @ e # post) l enc postfix = GetValue e enc @ postfix \<and>
         GetMetaValue_default pre l = [] \<and>
         GetMetaValue pre l enc postfix = []"
  using assms
  by (simp add: GetMetaValue_default_def GetMetaValue_def find_no_match find_first_match)

text \<open>
  The lookup at work: \<^verbatim>\<open>ip\<close> is attached first, then \<^verbatim>\<open>user=bob\<close>, then \<^verbatim>\<open>user=eve\<close>; the
  lookup of \<^verbatim>\<open>user\<close> returns the value of the first of the two.
\<close>

theorem GetMetaValue_first_match_witness:
  "label (LogMetaDataValue_string ''ip'' ''10.0.0.1'' True) \<noteq> ''user'' \<and>
   label (LogMetaDataValue_string ''user'' ''bob'' False) = ''user'' \<and>
   GetMetaValue_default
     ([LogMetaDataValue_string ''ip'' ''10.0.0.1'' True]
      @ LogMetaDataValue_string ''user'' ''bob'' False
      # [LogMetaDataValue_string ''user'' ''eve'' False]) ''user'' = ''bob '' \<and>
   GetMetaValue_default [LogMetaDataValue_string ''ip'' ''10.0.0.1'' True] ''user'' = []"
proof -
  let ?pre = "[LogMetaDataValue_string ''ip'' ''10.0.0.1'' True]"
  let ?e = "LogMetaDataValue_string ''user'' ''bob'' False"
  let ?post = "[LogMetaDataValue_string ''user'' ''eve'' False]"
  have h1: "\<forall>x\<in>set ?pre. label x \<noteq> ''user''"
    by (simp add: LogMetaDataValue_string_def)
  have h2: "label ?e = ''user''"
    by (simp add: LogMetaDataValue_string_def)
  have v: "GetValue ?e True @ '' '' = ''bob ''"
    by (simp add: GetValue_def LogMetaDataValue_string_def)
  from GetMetaValue_first_match [OF h1 h2, of ?post True "'' ''"]
  have "GetMetaValue_default (?pre @ ?e # ?post) ''user'' = GetValue ?e True @ '' ''"
    and "GetMetaValue_default ?pre ''user'' = []"
    by blast+
  with h1 h2 v show ?thesis by simp
qed

section \<open>Properties of the writers\<close>

lemmas Write_defs =
  StreamLogWriter_Write_def StreamLogWriter_Write_group_def
  StreamLogWriter_Write_plain_def StreamLogWriter_Write_event_def
  SyslogWriter_Write_def SyslogWriter_Write_group_def SyslogWriter_Write_plain_def
  SyslogWriter_Write_event_def JournaldWriter_Write_def JournaldWriter_Write_group_def
  JournaldWriter_Write_plain_def JournaldWriter_Write_event_def
  LogWriter_Write_group_def LogWriter_Write_plain_def LogWriter_Write_event_def

text \<open>
  C1: every \<^verbatim>\<open>Write\<close> overload of the stream, syslog and journald writers leaves the
  metadata empty, whatever the writer held before the call.
\<close>

theorem Write_clears_metadata:
  "metadata (StreamLogWriter_Write env data ci cr w) = [] \<and>
   metadata (StreamLogWriter_Write_group env grp ctg data ci cr w) = [] \<and>
   metadata (StreamLogWriter_Write_plain env grp ctg data w) = [] \<and>
   metadata (StreamLogWriter_Write_event env logev w) = [] \<and>
   metadata (SyslogWriter_Write env data ci cr sw) = [] \<and>
   metadata (SyslogWriter_Write_group env grp ctg data ci cr sw) = [] \<and>
   metadata (SyslogWriter_Write_plain env grp ctg data sw) = [] \<and>
   metadata (SyslogWriter_Write_event env logev sw) = [] \<and>
   metadata (JournaldWriter_Write env data ci cr jw) = [] \<and>
   metadata (JournaldWriter_Write_group env grp ctg data ci cr jw) = [] \<and>
   metadata (JournaldWriter_Write_plain env grp ctg data jw) = [] \<and>
   metadata (JournaldWriter_Write_event env logev jw) = []"
  by (simp add: Write_defs Let_def)

text \<open>The sticky label is cleared by every \<^verbatim>\<open>Write\<close>.\<close>

lemma Write_clears_prepend_label:
  "prepend_label (StreamLogWriter_Write env data ci cr w) = [] \<and>
   prepend_label (SyslogWriter_Write env data ci cr sw) = [] \<and>
   prepend_label (SyslogWriter_Write_group env grp ctg data ci cr sw) = [] \<and>
   prepend_label (JournaldWriter_Write_event env logev jw) = []"
  by (simp add: Write_defs Let_def)

text \<open>The stream and syslog writers reset the one-shot flag when they write a metadata line.\<close>

lemma Write_meta_line_resets_prepend_meta:
  assumes "log_meta w" and "metadata w \<noteq> []" and "log_meta sw" and "metadata sw \<noteq> []"
  shows "\<not> prepend_meta (StreamLogWriter_Write env data ci cr w) \<and>
         \<not> prepend_meta (SyslogWriter_Write env data ci cr sw) \<and>
         \<not> prepend_meta (SyslogWriter_Write_group env grp ctg data ci cr sw)"
  using assms by (simp add: Write_defs Let_def)

text \<open>
  C2: the claim has the one-shot flag \<^verbatim>\<open>prepend_meta\<close> false after every \<^verbatim>\<open>Write\<close>, and the
  comment on \<^verbatim>\<open>PrependMeta\<close> says the same ("This is reset on each Write() operation").
  The code resets it in the stream and syslog writers only inside the branch that writes
  a metadata line, and nowhere in the journald writer. After \<^verbatim>\<open>PrependMeta("user", true)\<close>
  the flag is still true when \<^verbatim>\<open>Write\<close> returns: on a stream or syslog writer with no
  metadata attached, and on a journald writer even with metadata attached.
\<close>

theorem Write_keeps_prepend_meta:
  "prepend_meta (StreamLogWriter_Write env ''login'' [] []
      (PrependMeta ''user'' True StreamLogWriter_init)) = True \<and>
   prepend_meta (SyslogWriter_Write env ''login'' [] []
      (PrependMeta ''user'' True SyslogWriter_init)) = True \<and>
   prepend_meta (JournaldWriter_Write_event env (LogEvent_new UNDEFINED INFO ''login'')
      (PrependMeta ''user'' True
         (AddMeta_string ''user'' ''bob'' False JournaldWriter_init))) = True"
  by (simp add: Write_defs Let_def PrependMeta_def AddMeta_string_def
      StreamLogWriter_init_def SyslogWriter_init_def JournaldWriter_init_def)

text \<open>What \<^verbatim>\<open>ColourStreamWriter::Write\<close> hands to \<^verbatim>\<open>StreamLogWriter::Write\<close> in each mode.\<close>

lemma ColourStreamWriter_Write_dispatch:
  "ColourStreamWriter_Write env grp ctg data w =
     (case GetColourMode (colours w) of
        BY_CATEGORY \<Rightarrow>
          StreamLogWriter_Write env (LogPrefix env grp ctg @ data)
            (ColourByCategory (colours w) ctg) (Reset (colours w)) w
      | BY_GROUP \<Rightarrow>
          StreamLogWriter_Write env
            (LogPrefix env grp ctg @ ColourByGroup (colours w) grp @ data)
            (if LogCategory_rank INFO < LogCategory_rank ctg
             then ColourByCategory (colours w) ctg else ColourByGroup (colours w) grp)
            (Reset (colours w)) w
      | NO_COLOUR \<Rightarrow> StreamLogWriter_Write env (LogPrefix env grp ctg @ data) [] [] w)"
  by (simp add: ColourStreamWriter_Write_def LogWriter_Write_group_def
      LogWriter_Write_plain_def LogCategory_less_def Let_def split: ColourMode.splits)

text \<open>The text \<^verbatim>\<open>StreamLogWriter::Write\<close> appends to the stream.\<close>

lemma StreamLogWriter_Write_dest:
  "dest (StreamLogWriter_Write env data ci cr w) =
     dest w
     @ (if log_meta w \<and> metadata w \<noteq> []
        then (if timestamp w then GetTimestamp env 0 else []) @ '' '' @ ci
             @ (if prepend_meta w
                then GetMetaValue_default (metadata w) (prepend_label w) else [])
             @ put_LogMetaData (metadata w) @ cr @ endl
        else [])
     @ (if timestamp w
        then GetTimestamp env (if log_meta w \<and> metadata w \<noteq> [] then 1 else 0) else [])
     @ '' '' @ ci
     @ (if prepend_label w \<noteq> []
        then GetMetaValue_default (metadata w) (prepend_label w) else [])
     @ data @ cr @ endl"
  by (simp add: StreamLogWriter_Write_def Let_def)

text \<open>
  C7: the text a colour stream writer appends to its stream. On the metadata line, when
  there is one, and on the message line, the colour written after the timestamp and the
  space, in front of the line, is: in by-group mode the category colour exactly when the
  category is above \<^verbatim>\<open>LogCategory::INFO\<close> and the group colour otherwise; in by-category
  mode always the category colour; in any other mode nothing.
\<close>

theorem ColourStreamWriter_Write_colour:
  "dest (ColourStreamWriter_Write env grp ctg data w) =
     (let colour =
            (case GetColourMode (colours w) of
               BY_CATEGORY \<Rightarrow> ColourByCategory (colours w) ctg
             | BY_GROUP \<Rightarrow>
                 (if LogCategory_rank INFO < LogCategory_rank ctg
                  then ColourByCategory (colours w) ctg
                  else ColourByGroup (colours w) grp)
             | NO_COLOUR \<Rightarrow> []);
          reset =
            (case GetColourMode (colours w) of
               BY_CATEGORY \<Rightarrow> Reset (colours w)
             | BY_GROUP \<Rightarrow> Reset (colours w)
             | NO_COLOUR \<Rightarrow> []);
          body =
            (case GetColourMode (colours w) of
               BY_CATEGORY \<Rightarrow> LogPrefix env grp ctg @ data
             | BY_GROUP \<Rightarrow> LogPrefix env grp ctg @ ColourByGroup (colours w) grp @ data
             | NO_COLOUR \<Rightarrow> LogPrefix env grp ctg @ data);
          meta_line = (log_meta w \<and> metadata w \<noteq> [])
      in dest w
         @ (if meta_line
            then (if timestamp w then GetTimestamp env 0 else []) @ '' '' @ colour
                 @ (if prepend_meta w
                    then GetMetaValue_default (metadata w) (prepend_label w) else [])
                 @ put_LogMetaData (metadata w) @ reset @ endl
            else [])
         @ (if timestamp w then GetTimestamp env (if meta_line then 1 else 0) else [])
         @ '' '' @ colour
         @ (if prepend_label w \<noteq> []
            then GetMetaValue_default (metadata w) (prepend_label w) else [])
         @ body @ reset @ endl)"
  unfolding ColourStreamWriter_Write_dispatch Let_def
  by (cases "GetColourMode (colours w)")
     (simp_all only: ColourMode.case StreamLogWriter_Write_dest)

text \<open>
  The stream after one write in by-group mode, with no metadata attached: a warning is
  led by the category colour, an informational line by the group colour.
\<close>

theorem ColourStreamWriter_Write_colour_witness:
  "dest (ColourStreamWriter_Write
      \<lparr>GetTimestamp = (\<lambda>k. ''T''), LogPrefix = (\<lambda>g c. ''P: ''), logcatg2syslog = (\<lambda>c. 6),
       GetLogGroupStr = (\<lambda>g. []), GetLogCategoryStr = (\<lambda>c. []),
       sd_journal_sendv = (\<lambda>l. 0), strerror_errno = []\<rparr>
      UNDEFINED WARN ''msg''
      \<lparr>timestamp = True, log_meta = True, metadata = [], prepend_prefix = True,
       prepend_label = [], prepend_meta = False, dest = [],
       colours = \<lparr>GetColourMode = BY_GROUP, ColourByCategory = (\<lambda>c. ''<C>''),
                  ColourByGroup = (\<lambda>g. ''<G>''), Reset = ''<R>''\<rparr>\<rparr>)
     = ''T <C>P: <G>msg<R>'' @ endl \<and>
   dest (ColourStreamWriter_Write
      \<lparr>GetTimestamp = (\<lambda>k. ''T''), LogPrefix = (\<lambda>g c. ''P: ''), logcatg2syslog = (\<lambda>c. 6),
       GetLogGroupStr = (\<lambda>g. []), GetLogCategoryStr = (\<lambda>c. []),
       sd_journal_sendv = (\<lambda>l. 0), strerror_errno = []\<rparr>
      UNDEFINED INFO ''msg''
      \<lparr>timestamp = True, log_meta = True, metadata = [], prepend_prefix = True,
       prepend_label = [], prepend_meta = False, dest = [],
       colours = \<lparr>GetColourMode = BY_GROUP, ColourByCategory = (\<lambda>c. ''<C>''),
                  ColourByGroup = (\<lambda>g. ''<G>''), Reset = ''<R>''\<rparr>\<rparr>)
     = ''T <G>P: <G>msg<R>'' @ endl"
  by (simp add: ColourStreamWriter_Write_colour Let_def)

text \<open>
  C10: the single-string \<^verbatim>\<open>Write\<close> of the journald writer submits one record, which
  carries the group field of \<^verbatim>\<open>LogGroup::UNDEFINED\<close> and the category field of
  \<^verbatim>\<open>LogCategory::INFO\<close>, whatever the data and the colour arguments are.
\<close>

theorem JournaldWriter_Write_fields:
  "sendv_calls (JournaldWriter_Write env data ci cr w) =
     sendv_calls w @
     [map (\<lambda>r. ''O3_'' @ r) (GetMetaDataRecords (metadata w) True False)
      @ [''O3_LOG_GROUP='' @ GetLogGroupStr env UNDEFINED,
         ''O3_LOG_CATEGORY='' @ GetLogCategoryStr env INFO,
         ''MESSAGE=''
           @ (if prepend_prefix w \<and> prepend_meta w
              then GetMetaValue (metadata w) (prepend_label w) True '' '' else [])
           @ data]]"
  by (simp add: JournaldWriter_Write_def JournaldWriter_Write_event_def LogEvent_new_def
      Let_def)

text \<open>
  C9, as stated, fails in its last part: with metadata logging switched off \<^verbatim>\<open>AddMeta\<close>
  changes nothing, so an entry attached under the same label while logging was on is
  still there, and the lookup returns its value, not the empty string.
\<close>

theorem AddMeta_disabled_lookup_counterexample:
  "\<not> log_meta (EnableLogMeta False (AddMeta_string ''user'' ''alice'' False LogWriter_init)) \<and>
   GetMetaValue_default
     (metadata (AddMeta_string ''user'' ''bob'' False
        (EnableLogMeta False (AddMeta_string ''user'' ''alice'' False LogWriter_init))))
     ''user'' = ''alice '' "
  by (simp add: EnableLogMeta_def AddMeta_string_def LogWriter_init_def
      LogMetaData_AddMeta_string_def LogMetaDataValue_string_def
      GetMetaValue_default_def GetMetaValue_def GetValue_def)

text \<open>
  C9, amended: with metadata logging switched off both \<^verbatim>\<open>AddMeta\<close> overloads leave the
  writer as it is, whatever it holds, so a lookup by that label afterwards returns what it
  returned before; that is the empty string when no entry with that label was attached
  before.
\<close>

theorem AddMeta_disabled_unchanged:
  assumes "\<not> log_meta w"
  shows "AddMeta_string l d s w = w \<and> AddMeta_logtag l t s e w = w \<and>
         GetMetaValue (metadata (AddMeta_string l d s w)) l enc postfix
           = GetMetaValue (metadata w) l enc postfix \<and>
         GetMetaValue (metadata (AddMeta_logtag l t s e w)) l enc postfix
           = GetMetaValue (metadata w) l enc postfix \<and>
         ((\<forall>x\<in>set (metadata w). label x \<noteq> l) \<longrightarrow>
            GetMetaValue (metadata (AddMeta_string l d s w)) l enc postfix = [] \<and>
            GetMetaValue (metadata (AddMeta_logtag l t s e w)) l enc postfix = [])"
  using assms
  by (simp add: AddMeta_string_def AddMeta_logtag_def GetMetaValue_def find_no_match)

text \<open>
  A writer that had \<^verbatim>\<open>ip=10.0.0.1\<close> attached before metadata logging was switched off:
  \<^verbatim>\<open>AddMeta("user", "bob")\<close> leaves it as it is, and the lookup of \<^verbatim>\<open>user\<close> is empty.
\<close>

theorem AddMeta_disabled_unchanged_witness:
  "\<not> log_meta (EnableLogMeta False (AddMeta_string ''ip'' ''10.0.0.1'' False LogWriter_init)) \<and>
   metadata (EnableLogMeta False (AddMeta_string ''ip'' ''10.0.0.1'' False LogWriter_init))
     = [LogMetaDataValue_string ''ip'' ''10.0.0.1'' False] \<and>
   AddMeta_string ''user'' ''bob'' False
      (EnableLogMeta False (AddMeta_string ''ip'' ''10.0.0.1'' False LogWriter_init))
     = EnableLogMeta False (AddMeta_string ''ip'' ''10.0.0.1'' False LogWriter_init) \<and>
   GetMetaValue (metadata (AddMeta_string ''user'' ''bob'' False
      (EnableLogMeta False (AddMeta_string ''ip'' ''10.0.0.1'' False LogWriter_init))))
      ''user'' True '' '' = []"
proof -
  let ?w = "EnableLogMeta False (AddMeta_string ''ip'' ''10.0.0.1'' False LogWriter_init)"
  have h1: "\<not> log_meta ?w"
    by (simp add: EnableLogMeta_def AddMeta_string_def LogWriter_init_def)
  have h3: "metadata ?w = [LogMetaDataValue_string ''ip'' ''10.0.0.1'' False]"
    by (simp add: EnableLogMeta_def AddMeta_string_def LogWriter_init_def
        LogMetaData_AddMeta_string_def)
  have h2: "\<forall>x\<in>set (metadata ?w). label x \<noteq> ''user''"
    by (simp add: h3 LogMetaDataValue_string_def)
  from AddMeta_disabled_unchanged
         [OF h1, of "''user''" "''bob''" False LogTag_default False True "'' ''"] h1 h2 h3
  show ?thesis by blast
qed

section \<open>Properties of the backend signals\<close>

text \<open>
  C5, as stated, fails: \<^verbatim>\<open>BackendSignals::RegistrationRequest\<close> is declared \<^verbatim>\<open>void\<close>. Its
  caller gets the same result when the emit returns true and when it returns false.
\<close>

theorem RegistrationRequest_no_result_counterexample:
  "BackendSignals_RegistrationRequest (\<lambda>p. Returns True) [] ''bus'' ''tok'' 42 =
   BackendSignals_RegistrationRequest (\<lambda>p. Returns False) [] ''bus'' ''tok'' 42"
  by (simp add: BackendSignals_RegistrationRequest_def RegistrationRequest_Send_def)

text \<open>
  C5, amended: the signal's \<^verbatim>\<open>Send\<close> returns the emit result when the emit returns, and
  catches a \<^verbatim>\<open>DBus::Signals::Exception\<close>, reports it on \<^verbatim>\<open>std::cerr\<close> and returns false;
  \<^verbatim>\<open>BackendSignals::RegistrationRequest\<close> calls \<^verbatim>\<open>Send\<close>, does not propagate that
  exception either, and returns nothing to its caller.
\<close>

theorem RegistrationRequest_Send_result:
  "RegistrationRequest_Send (EmitSignal((busname, token, pid) := Returns b))
      cerr busname token pid = (Inr b, cerr) \<and>
   RegistrationRequest_Send
      (EmitSignal((busname, token, pid) := Throws (DBus_Signals_Exception what)))
      cerr busname token pid
     = (Inr False, cerr @ ''RegistrationRequest::Send() EXCEPTION:'' @ what @ endl) \<and>
   BackendSignals_RegistrationRequest (EmitSignal((busname, token, pid) := Returns b))
      cerr busname token pid = (Inr (), cerr) \<and>
   BackendSignals_RegistrationRequest
      (EmitSignal((busname, token, pid) := Throws (DBus_Signals_Exception what)))
      cerr busname token pid
     = (Inr (), cerr @ ''RegistrationRequest::Send() EXCEPTION:'' @ what @ endl)"
  by (simp add: BackendSignals_RegistrationRequest_def RegistrationRequest_Send_def)

text \<open>
  C6, as stated, fails: \<^verbatim>\<open>LogFATAL\<close> has no guard. Called twice on a new object, it has
  started two timer threads.
\<close>

theorem LogFATAL_twice_counterexample:
  "threads_started
     (LogFATAL ''second'' (LogFATAL ''first'' (BackendSignals_init UNDEFINED ''tok''))) = 2"
  by (simp add: LogFATAL_def BackendSignals_init_def BackendSignals_Log_def Let_def)

text \<open>
  C6, amended: every call of \<^verbatim>\<open>LogFATAL\<close> in a running process starts one more timer
  thread and stores it in \<^verbatim>\<open>delayed_shutdown\<close>; so one call on a new object starts exactly
  one timer, and a second call starts a second one.
\<close>

theorem LogFATAL_starts_timer:
  assumes "\<not> terminate_called s"
  shows "threads_started (LogFATAL msg s) = Suc (threads_started s) \<and>
         delayed_shutdown (LogFATAL msg s) = Some (threads_started s)"
  using assms
  by (simp add: LogFATAL_def BackendSignals_Log_def Let_def split: option.splits)

text \<open>One call on a new object: one timer.\<close>

theorem LogFATAL_starts_timer_witness:
  "\<not> terminate_called (BackendSignals_init UNDEFINED ''tok'') \<and>
   threads_started (LogFATAL ''fatal'' (BackendSignals_init UNDEFINED ''tok'')) = 1 \<and>
   delayed_shutdown (LogFATAL ''fatal'' (BackendSignals_init UNDEFINED ''tok'')) = Some 0"
proof -
  let ?s = "BackendSignals_init UNDEFINED ''tok''"
  have h: "\<not> terminate_called ?s"
    by (simp add: BackendSignals_init_def)
  have z: "threads_started ?s = 0"
    by (simp add: BackendSignals_init_def)
  from LogFATAL_starts_timer [OF h, of "''fatal''"] h z
  show ?thesis by simp
qed

end
